theory Spec2Isabelle
  imports Main "HOL-Library.Word"
begin

section \<open>Data model of configurable.go\<close>

text \<open>
  Go strings are byte sequences: \<open>string\<close>. The types \<open>int\<close> (on a 64-bit platform),
  \<open>int64\<close> and \<open>time.Duration\<close> (nanoseconds) are 64-bit words. The type \<open>float64\<close> is the
  type parameter \<open>'f\<close>: the code only stores such values and hands them to the standard
  library. A slice of strings is a list (a nil slice and an empty one are both \<open>[]\<close>).
  A Go map value can be nil, and writing to a nil map panics: a
  \<open>map[string]string\<close> is \<open>None\<close> when nil and \<open>Some m\<close> otherwise.
\<close>

type_synonym gomap = "(string \<rightharpoonup> string) option"

text \<open>
  A decoded value, \<open>interface{}\<close>, as the JSON and YAML decoders and the code itself
  produce it. \<open>VInt\<close> is the \<open>int\<close> that the YAML decoder gives for an integer and
  \<open>VNil\<close> the nil interface; the type switches of the code send both to \<open>default\<close>.
  An object is the list of its entries in the order a \<open>range\<close> visits them.
\<close>

datatype 'f val =
    VNil
  | VBool bool
  | VFloat 'f
  | VInt "64 word"
  | VString string
  | VArray "'f val list"
  | VObject "(string \<times> 'f val) list"

text \<open>
  An entry of \<open>c.flags\<close>: a pointer of one of eight types, with the cell it points to.
  Every entry is made by one of the \<open>New...\<close> methods, and each of them allocates its
  own cell, so an entry is identified with the content of its cell.
\<close>

datatype 'f slot =
    PInt "64 word"
  | PInt64 "64 word"
  | PFloat64 'f
  | PString string
  | PBool bool
  | PDuration "64 word"
  | PListFlag "string list"
  | PMapFlag gomap

datatype error =
    CannotConvert string
  | SyntaxError string string
  | InvalidDuration string
  | InvalidMapItem string
  | ErrorSettingKey string error
  | ReadFileError string
  | DecodeError
  | UnsupportedFileExtension

text \<open>
  What a call does: it returns, or it panics. A function that returns reports the cells
  as they are afterwards together with its \<open>error\<close> result (\<open>None\<close> is Go's nil error).
\<close>

datatype 'a go = Ret 'a | Panic

text \<open>
  The collaborators outside the repository: the parts of the Go standard library that
  work on \<open>float64\<close> or that are too large to write out, the environment, the file
  system and the three decoders. \<open>range_keys m\<close> is the order in which a \<open>range\<close> over
  the map \<open>m\<close> visits its keys; Go leaves it unspecified.
\<close>

record 'f world =
  float_to_int :: "'f \<Rightarrow> 64 word"
  ParseFloat :: "string \<Rightarrow> 'f option"
  FormatFloat :: "'f \<Rightarrow> string"
  ParseDuration :: "string \<Rightarrow> 64 word option"
  ToLowerUnicode :: "string \<Rightarrow> string"
  LookupEnv :: "string \<rightharpoonup> string"
  ReadFile :: "string \<rightharpoonup> string"
  json_Unmarshal :: "string \<Rightarrow> (string \<times> 'f val) list option"
  yaml_Unmarshal :: "string \<Rightarrow> (string \<times> 'f val) list option"
  ini_Load :: "string \<Rightarrow> (string \<Rightarrow> string) option"
  range_keys :: "(string \<rightharpoonup> 'f slot) \<Rightarrow> string list"

text \<open>
  The registry, \<open>Configurable\<close>, kept together with the part of the flag package that
  registration depends on: the names that \<open>flag.CommandLine\<close> has defined (\<open>formal\<close>)
  and the names that were set while not defined (\<open>undef\<close>, which \<open>flag.Set\<close> fills).
  The \<open>New...\<close> methods define a flag there, which panics for a name of either set.
\<close>

record 'f Configurable =
  flags :: "string \<rightharpoonup> 'f slot"
  formal :: "string set"
  undef :: "string set"

section \<open>Standard library functions written out\<close>

text \<open>\<open>strings.Split(s, sep)\<close> for a separator of one byte.\<close>

fun Split :: "string \<Rightarrow> char \<Rightarrow> string list" where
  "Split [] sep = [[]]"
| "Split (x # xs) sep =
     (if x = sep then [] # Split xs sep
      else (case Split xs sep of [] \<Rightarrow> [[x]] | t # ts \<Rightarrow> (x # t) # ts))"

text \<open>\<open>strings.SplitN(s, sep, 2)\<close> for a separator of one byte: one or two pieces.\<close>

definition SplitN2 :: "string \<Rightarrow> char \<Rightarrow> string list" where
  "SplitN2 s sep =
     (case dropWhile (\<lambda>c. c \<noteq> sep) s of
        [] \<Rightarrow> [s]
      | _ # r \<Rightarrow> [takeWhile (\<lambda>c. c \<noteq> sep) s, r])"

text \<open>\<open>strconv.FormatBool\<close> and \<open>strconv.ParseBool\<close>.\<close>

definition FormatBool :: "bool \<Rightarrow> string" where
  "FormatBool b = (if b then ''true'' else ''false'')"

definition ParseBool :: "string \<Rightarrow> error + bool" where
  "ParseBool str =
     (if str \<in> set [''1'', ''t'', ''T'', ''TRUE'', ''true'', ''True''] then Inr True
      else if str \<in> set [''0'', ''f'', ''F'', ''FALSE'', ''false'', ''False''] then Inr False
      else Inl (SyntaxError ''ParseBool'' str))"

text \<open>
  \<open>strconv.ParseInt(s, 10, 64)\<close>: an optional sign, then one or more decimal digits,
  and the value must fit 64 bits. \<open>strconv.Atoi\<close> is the same on a 64-bit platform.
\<close>

definition is_digit :: "char \<Rightarrow> bool" where
  "is_digit c = (48 \<le> (of_char c :: nat) \<and> (of_char c :: nat) \<le> 57)"

fun digits_value :: "nat \<Rightarrow> string \<Rightarrow> nat option" where
  "digits_value acc [] = Some acc"
| "digits_value acc (c # cs) =
     (if is_digit c then digits_value (10 * acc + (of_char c - 48)) cs else None)"

definition ParseInt :: "string \<Rightarrow> error + 64 word" where
  "ParseInt s =
     (let neg = (s \<noteq> [] \<and> hd s = CHR ''-'');
          ds = (if s \<noteq> [] \<and> (hd s = CHR ''+'' \<or> hd s = CHR ''-'') then tl s else s)
      in if ds = [] then Inl (SyntaxError ''ParseInt'' s)
         else (case digits_value 0 ds of
                 None \<Rightarrow> Inl (SyntaxError ''ParseInt'' s)
               | Some n \<Rightarrow>
                   if neg then (if n \<le> 2 ^ 63 then Inr (- word_of_nat n)
                                else Inl (SyntaxError ''ParseInt'' s))
                   else (if n < 2 ^ 63 then Inr (word_of_nat n)
                         else Inl (SyntaxError ''ParseInt'' s))))"

definition Atoi :: "string \<Rightarrow> error + 64 word" where
  "Atoi s = (case ParseInt s of Inl e \<Rightarrow> Inl (SyntaxError ''Atoi'' s) | Inr n \<Rightarrow> Inr n)"

text \<open>
  \<open>filepath.Ext\<close> with \<open>/\<close> as the path separator: the suffix of the last path element
  from its last dot on, empty when that element has no dot.
\<close>

definition Ext :: "string \<Rightarrow> string" where
  "Ext path =
     (let base = rev (takeWhile (\<lambda>c. c \<noteq> CHR ''/'') (rev path))
      in if CHR ''.'' \<in> set base
         then CHR ''.'' # rev (takeWhile (\<lambda>c. c \<noteq> CHR ''.'') (rev base))
         else [])"

text \<open>
  \<open>strings.ToLower\<close>: on a string of ASCII bytes the letters \<open>A\<close> to \<open>Z\<close> move to
  \<open>a\<close> to \<open>z\<close>; any other string goes through the Unicode tables.
\<close>

definition is_ascii :: "char \<Rightarrow> bool" where
  "is_ascii c = ((of_char c :: nat) < 128)"

definition lower_byte :: "char \<Rightarrow> char" where
  "lower_byte c =
     (if 65 \<le> (of_char c :: nat) \<and> (of_char c :: nat) \<le> 90
      then char_of ((of_char c :: nat) + 32) else c)"

definition ToLower :: "'f world \<Rightarrow> string \<Rightarrow> string" where
  "ToLower W s = (if list_all is_ascii s then map lower_byte s else ToLowerUnicode W s)"

section \<open>The list and map flags\<close>

text \<open>
  \<open>ListFlag.Set\<close> and \<open>MapFlag.Set\<close>, which the flag package calls for each occurrence
  on the command line. The \<open>values\<close> pointer of a registered flag is never nil, so the
  first test of either method is false.
\<close>

definition ListFlag_Set :: "string list \<Rightarrow> string \<Rightarrow> (string list \<times> error option) go" where
  "ListFlag_Set values v = Ret (values @ Split v CHR '','', None)"

fun MapFlag_Set_pairs :: "gomap \<Rightarrow> string list \<Rightarrow> (gomap \<times> error option) go" where
  "MapFlag_Set_pairs values [] = Ret (values, None)"
| "MapFlag_Set_pairs values (pair # pairs) =
     (case SplitN2 pair CHR ''='' of
        [k, v] \<Rightarrow>
          (case values of
             None \<Rightarrow> Panic
           | Some m \<Rightarrow> MapFlag_Set_pairs (Some (m(k \<mapsto> v))) pairs)
      | _ \<Rightarrow> Ret (values, Some (InvalidMapItem pair)))"

definition MapFlag_Set :: "gomap \<Rightarrow> string \<Rightarrow> (gomap \<times> error option) go" where
  "MapFlag_Set values v = MapFlag_Set_pairs values (Split v CHR '','')"

section \<open>Type coercion\<close>

definition toInt :: "'f world \<Rightarrow> 'f val \<Rightarrow> error + 64 word" where
  "toInt W v =
     (case v of
        VFloat x \<Rightarrow> Inr (float_to_int W x)
      | VString s \<Rightarrow> Atoi s
      | _ \<Rightarrow> Inl (CannotConvert ''int''))"

definition toInt64 :: "'f world \<Rightarrow> 'f val \<Rightarrow> error + 64 word" where
  "toInt64 W v =
     (case v of
        VFloat x \<Rightarrow> Inr (float_to_int W x)
      | VString s \<Rightarrow> ParseInt s
      | _ \<Rightarrow> Inl (CannotConvert ''int64''))"

definition toFloat64 :: "'f world \<Rightarrow> 'f val \<Rightarrow> error + 'f" where
  "toFloat64 W v =
     (case v of
        VFloat x \<Rightarrow> Inr x
      | VString s \<Rightarrow>
          (case ParseFloat W s of None \<Rightarrow> Inl (SyntaxError ''ParseFloat'' s) | Some x \<Rightarrow> Inr x)
      | _ \<Rightarrow> Inl (CannotConvert ''float64''))"

definition toString :: "'f world \<Rightarrow> 'f val \<Rightarrow> error + string" where
  "toString W v =
     (case v of
        VString s \<Rightarrow> Inr s
      | VFloat x \<Rightarrow> Inr (FormatFloat W x)
      | VBool b \<Rightarrow> Inr (FormatBool b)
      | _ \<Rightarrow> Inl (CannotConvert ''string''))"

definition toBool :: "'f world \<Rightarrow> 'f val \<Rightarrow> error + bool" where
  "toBool W v =
     (case v of
        VBool b \<Rightarrow> Inr b
      | VString s \<Rightarrow> ParseBool s
      | _ \<Rightarrow> Inl (CannotConvert ''bool''))"

text \<open>The loop of \<open>toStringSlice\<close> over the items, with the result so far.\<close>

fun toStringSlice_items :: "'f world \<Rightarrow> string list \<Rightarrow> 'f val list \<Rightarrow> error + string list" where
  "toStringSlice_items W result [] = Inr result"
| "toStringSlice_items W result (item # items) =
     (case toString W item of
        Inl e \<Rightarrow> Inl e
      | Inr str \<Rightarrow> toStringSlice_items W (result @ [str]) items)"

definition toStringSlice :: "'f world \<Rightarrow> 'f val \<Rightarrow> error + string list" where
  "toStringSlice W v =
     (case v of
        VArray items \<Rightarrow> toStringSlice_items W [] items
      | VString s \<Rightarrow> (if s = [] then Inr [] else Inr (Split s CHR '',''))
      | _ \<Rightarrow> Inl (CannotConvert ''[]string''))"

text \<open>The two loops of \<open>toStringMap\<close>; \<open>result\<close> is a fresh map, never nil.\<close>

fun toStringMap_entries ::
  "'f world \<Rightarrow> (string \<rightharpoonup> string) \<Rightarrow> (string \<times> 'f val) list \<Rightarrow> error + (string \<rightharpoonup> string)" where
  "toStringMap_entries W result [] = Inr result"
| "toStringMap_entries W result ((key, v) # entries) =
     (case toString W v of
        Inl e \<Rightarrow> Inl e
      | Inr strVal \<Rightarrow> toStringMap_entries W (result(key \<mapsto> strVal)) entries)"

fun toStringMap_pairs ::
  "(string \<rightharpoonup> string) \<Rightarrow> string list \<Rightarrow> error + (string \<rightharpoonup> string)" where
  "toStringMap_pairs result [] = Inr result"
| "toStringMap_pairs result (pair # pairs) =
     (case SplitN2 pair CHR ''='' of
        [k, v] \<Rightarrow> toStringMap_pairs (result(k \<mapsto> v)) pairs
      | _ \<Rightarrow> Inl (InvalidMapItem pair))"

definition toStringMap :: "'f world \<Rightarrow> 'f val \<Rightarrow> error + (string \<rightharpoonup> string)" where
  "toStringMap W v =
     (case v of
        VObject entries \<Rightarrow> toStringMap_entries W Map.empty entries
      | VString s \<Rightarrow>
          (if s = [] then Inr Map.empty else toStringMap_pairs Map.empty (Split s CHR '',''))
      | _ \<Rightarrow> Inl (CannotConvert ''map[string]string''))"

section \<open>Setting a slot\<close>

text \<open>
  \<open>setValue\<close>: the cell afterwards and the error returned. The \<open>default\<close> branch of its
  type switch is not reachable from a registered entry. Copying \<open>mapVal\<close> into a nil map
  panics at the first entry; an empty \<open>mapVal\<close> writes nothing.
\<close>

definition setValue :: "'f world \<Rightarrow> 'f slot \<Rightarrow> 'f val \<Rightarrow> ('f slot \<times> error option) go" where
  "setValue W flagVal v =
     (case flagVal of
        PInt old \<Rightarrow>
          (case toInt W v of
             Inl e \<Rightarrow> Ret (flagVal, Some e) | Inr intVal \<Rightarrow> Ret (PInt intVal, None))
      | PInt64 old \<Rightarrow>
          (case toInt64 W v of
             Inl e \<Rightarrow> Ret (flagVal, Some e) | Inr int64Val \<Rightarrow> Ret (PInt64 int64Val, None))
      | PFloat64 old \<Rightarrow>
          (case toFloat64 W v of
             Inl e \<Rightarrow> Ret (flagVal, Some e) | Inr floatVal \<Rightarrow> Ret (PFloat64 floatVal, None))
      | PString old \<Rightarrow>
          (case toString W v of
             Inl e \<Rightarrow> Ret (flagVal, Some e) | Inr strVal \<Rightarrow> Ret (PString strVal, None))
      | PBool old \<Rightarrow>
          (case toBool W v of
             Inl e \<Rightarrow> Ret (flagVal, Some e) | Inr boolVal \<Rightarrow> Ret (PBool boolVal, None))
      | PDuration old \<Rightarrow>
          (case toString W v of
             Inl e \<Rightarrow> Ret (flagVal, Some e)
           | Inr strVal \<Rightarrow>
               (case ParseDuration W strVal of
                  None \<Rightarrow> Ret (flagVal, Some (InvalidDuration strVal))
                | Some duration \<Rightarrow> Ret (PDuration duration, None)))
      | PListFlag values \<Rightarrow>
          (case toStringSlice W v of
             Inl e \<Rightarrow> Ret (flagVal, Some e)
           | Inr listVal \<Rightarrow> Ret (PListFlag (values @ listVal), None))
      | PMapFlag values \<Rightarrow>
          (case toStringMap W v of
             Inl e \<Rightarrow> Ret (flagVal, Some e)
           | Inr mapVal \<Rightarrow>
               (case values of
                  None \<Rightarrow> (if mapVal = Map.empty then Ret (flagVal, None) else Panic)
                | Some m \<Rightarrow> Ret (PMapFlag (Some (m ++ mapVal)), None))))"

section \<open>Loading a decoded file\<close>

text \<open>
  \<open>setValuesFromMap\<close> ranges over the decoded map, here the list of its entries in the
  order of the visit, and returns from inside the loop at the first error.
\<close>

fun setValuesFromMap ::
  "'f world \<Rightarrow> 'f Configurable \<Rightarrow> (string \<times> 'f val) list \<Rightarrow> ('f Configurable \<times> error option) go" where
  "setValuesFromMap W c [] = Ret (c, None)"
| "setValuesFromMap W c ((key, v) # data) =
     (case flags c key of
        None \<Rightarrow> setValuesFromMap W c data
      | Some flagVal \<Rightarrow>
          (case setValue W flagVal v of
             Panic \<Rightarrow> Panic
           | Ret (p, Some e) \<Rightarrow>
               Ret (c\<lparr>flags := (flags c)(key \<mapsto> p)\<rparr>, Some (ErrorSettingKey key e))
           | Ret (p, None) \<Rightarrow> setValuesFromMap W (c\<lparr>flags := (flags c)(key \<mapsto> p)\<rparr>) data))"

definition loadJSON :: "'f world \<Rightarrow> 'f Configurable \<Rightarrow> string \<Rightarrow> ('f Configurable \<times> error option) go" where
  "loadJSON W c data =
     (case json_Unmarshal W data of
        None \<Rightarrow> Ret (c, Some DecodeError)
      | Some jsonData \<Rightarrow> setValuesFromMap W c jsonData)"

definition loadYAML :: "'f world \<Rightarrow> 'f Configurable \<Rightarrow> string \<Rightarrow> ('f Configurable \<times> error option) go" where
  "loadYAML W c data =
     (case yaml_Unmarshal W data of
        None \<Rightarrow> Ret (c, Some DecodeError)
      | Some yamlData \<Rightarrow> setValuesFromMap W c yamlData)"

text \<open>
  \<open>loadINI\<close> asks the unnamed section for each registered name and keeps the values
  that are not empty; \<open>iniData\<close> is then visited in the order it was filled.
\<close>

definition loadINI :: "'f world \<Rightarrow> 'f Configurable \<Rightarrow> string \<Rightarrow> ('f Configurable \<times> error option) go" where
  "loadINI W c data =
     (case ini_Load W data of
        None \<Rightarrow> Ret (c, Some DecodeError)
      | Some cfg \<Rightarrow>
          (let iniData = map (\<lambda>key. (key, VString (cfg key)))
                             (filter (\<lambda>key. cfg key \<noteq> []) (range_keys W (flags c)))
           in setValuesFromMap W c iniData))"

definition LoadFile :: "'f world \<Rightarrow> 'f Configurable \<Rightarrow> string \<Rightarrow> ('f Configurable \<times> error option) go" where
  "LoadFile W c filename =
     (case ReadFile W filename of
        None \<Rightarrow> Ret (c, Some (ReadFileError filename))
      | Some data \<Rightarrow>
          (let ext = ToLower W (Ext filename)
           in if ext = ''.json'' then loadJSON W c data
              else if ext = ''.yaml'' \<or> ext = ''.yml'' then loadYAML W c data
              else if ext = ''.ini'' then loadINI W c data
              else Ret (c, Some UnsupportedFileExtension)))"

section \<open>Registration and the typed getters\<close>

text \<open>
  \<open>checkAndSetFromEnv\<close> drops the error of \<open>setValue\<close>.
\<close>

definition checkAndSetFromEnv :: "'f world \<Rightarrow> 'f Configurable \<Rightarrow> string \<Rightarrow> 'f Configurable go" where
  "checkAndSetFromEnv W c name =
     (case LookupEnv W name of
        None \<Rightarrow> Ret c
      | Some v \<Rightarrow>
          (case flags c name of
             None \<Rightarrow> Ret c
           | Some flagVal \<Rightarrow>
               (case setValue W flagVal (VString v) of
                  Panic \<Rightarrow> Panic
                | Ret (p, err) \<Rightarrow> Ret (c\<lparr>flags := (flags c)(name \<mapsto> p)\<rparr>))))"

text \<open>
  A getter returns the registry as the environment check left it and the pointer it
  found: \<open>None\<close> is the nil pointer, \<open>Some x\<close> a pointer to a cell that holds \<open>x\<close>.
\<close>

definition getter ::
  "('f slot \<Rightarrow> 'a option) \<Rightarrow> 'f world \<Rightarrow> 'f Configurable \<Rightarrow> string \<Rightarrow> ('f Configurable \<times> 'a option) go" where
  "getter assert W c name =
     (case checkAndSetFromEnv W c name of
        Panic \<Rightarrow> Panic
      | Ret c' \<Rightarrow> Ret (c', case flags c' name of None \<Rightarrow> None | Some p \<Rightarrow> assert p))"

text \<open>The getter \<open>Int\<close>; the name alone is taken by the set intersection of HOL.\<close>

definition Int_get :: "'f world \<Rightarrow> 'f Configurable \<Rightarrow> string \<Rightarrow> ('f Configurable \<times> 64 word option) go" where
  "Int_get = getter (\<lambda>p. case p of PInt x \<Rightarrow> Some x | _ \<Rightarrow> None)"

definition Int64 :: "'f world \<Rightarrow> 'f Configurable \<Rightarrow> string \<Rightarrow> ('f Configurable \<times> 64 word option) go" where
  "Int64 = getter (\<lambda>p. case p of PInt64 x \<Rightarrow> Some x | _ \<Rightarrow> None)"

definition Float64 :: "'f world \<Rightarrow> 'f Configurable \<Rightarrow> string \<Rightarrow> ('f Configurable \<times> 'f option) go" where
  "Float64 = getter (\<lambda>p. case p of PFloat64 x \<Rightarrow> Some x | _ \<Rightarrow> None)"

definition Duration :: "'f world \<Rightarrow> 'f Configurable \<Rightarrow> string \<Rightarrow> ('f Configurable \<times> 64 word option) go" where
  "Duration = getter (\<lambda>p. case p of PDuration x \<Rightarrow> Some x | _ \<Rightarrow> None)"

definition String :: "'f world \<Rightarrow> 'f Configurable \<Rightarrow> string \<Rightarrow> ('f Configurable \<times> string option) go" where
  "String = getter (\<lambda>p. case p of PString x \<Rightarrow> Some x | _ \<Rightarrow> None)"

definition Bool :: "'f world \<Rightarrow> 'f Configurable \<Rightarrow> string \<Rightarrow> ('f Configurable \<times> bool option) go" where
  "Bool = getter (\<lambda>p. case p of PBool x \<Rightarrow> Some x | _ \<Rightarrow> None)"

definition List :: "'f world \<Rightarrow> 'f Configurable \<Rightarrow> string \<Rightarrow> ('f Configurable \<times> string list option) go" where
  "List = getter (\<lambda>p. case p of PListFlag x \<Rightarrow> Some x | _ \<Rightarrow> None)"

definition Map :: "'f world \<Rightarrow> 'f Configurable \<Rightarrow> string \<Rightarrow> ('f Configurable \<times> gomap option) go" where
  "Map = getter (\<lambda>p. case p of PMapFlag x \<Rightarrow> Some x | _ \<Rightarrow> None)"

text \<open>
  \<open>flag.Var\<close>, behind \<open>flag.Int\<close> and the others: it panics for a name that begins with
  \<open>-\<close>, for one that contains \<open>=\<close>, for one that is defined already and for one that was
  set before being defined, in this order, and defines the flag otherwise.
\<close>

definition flag_Var :: "'f Configurable \<Rightarrow> string \<Rightarrow> 'f Configurable go" where
  "flag_Var c name =
     (if name \<noteq> [] \<and> hd name = CHR ''-'' then Panic
      else if CHR ''='' \<in> set name then Panic
      else if name \<in> formal c then Panic
      else if name \<in> undef c then Panic
      else Ret (c\<lparr>formal := insert name (formal c)\<rparr>))"

text \<open>
  A \<open>New...\<close> method returns the registry with the new entry and the pointer to its cell,
  given as the content of the cell.
\<close>

definition register ::
  "('a \<Rightarrow> 'f slot) \<Rightarrow> 'f Configurable \<Rightarrow> string \<Rightarrow> 'a \<Rightarrow> ('f Configurable \<times> 'a) go" where
  "register ptr c name v =
     (case flag_Var c name of
        Panic \<Rightarrow> Panic
      | Ret c' \<Rightarrow> Ret (c'\<lparr>flags := (flags c')(name \<mapsto> ptr v)\<rparr>, v))"

text \<open>
  \<open>New\<close> makes an empty registry and does not touch the flag package: \<open>defined\<close> and
  \<open>early\<close> are the names that \<open>flag.CommandLine\<close> holds at that moment as defined and
  as set before being defined.
\<close>

definition New :: "string set \<Rightarrow> string set \<Rightarrow> 'f Configurable" where
  "New defined early = \<lparr>flags = Map.empty, formal = defined, undef = early\<rparr>"

definition NewInt :: "'f Configurable \<Rightarrow> string \<Rightarrow> 64 word \<Rightarrow> ('f Configurable \<times> 64 word) go" where
  "NewInt = register PInt"

definition NewInt64 :: "'f Configurable \<Rightarrow> string \<Rightarrow> 64 word \<Rightarrow> ('f Configurable \<times> 64 word) go" where
  "NewInt64 = register PInt64"

definition NewFloat64 :: "'f Configurable \<Rightarrow> string \<Rightarrow> 'f \<Rightarrow> ('f Configurable \<times> 'f) go" where
  "NewFloat64 = register PFloat64"

definition NewDuration :: "'f Configurable \<Rightarrow> string \<Rightarrow> 64 word \<Rightarrow> ('f Configurable \<times> 64 word) go" where
  "NewDuration = register PDuration"

definition NewString :: "'f Configurable \<Rightarrow> string \<Rightarrow> string \<Rightarrow> ('f Configurable \<times> string) go" where
  "NewString = register PString"

definition NewBool :: "'f Configurable \<Rightarrow> string \<Rightarrow> bool \<Rightarrow> ('f Configurable \<times> bool) go" where
  "NewBool = register PBool"

definition NewList :: "'f Configurable \<Rightarrow> string \<Rightarrow> string list \<Rightarrow> ('f Configurable \<times> string list) go" where
  "NewList = register PListFlag"

definition NewMap :: "'f Configurable \<Rightarrow> string \<Rightarrow> gomap \<Rightarrow> ('f Configurable \<times> gomap) go" where
  "NewMap = register PMapFlag"

section \<open>A small world to run the code in\<close>

text \<open>
  An instance of the collaborators for running the definitions on concrete inputs.
  Its \<open>float64\<close> values are the integers. Numbers are printed and parsed in plain
  decimal, a duration is \<open>0\<close> or one whole number with one unit, and each decoder
  knows a few documents. On the inputs used below it answers as the Go library does.
\<close>

fun decimal :: "nat \<Rightarrow> string" where
  "decimal n = (if n < 10 then [char_of (48 + n)] else decimal (n div 10) @ [char_of (48 + n mod 10)])"

definition sample_FormatFloat :: "int \<Rightarrow> string" where
  "sample_FormatFloat x = (if x < 0 then CHR ''-'' # decimal (nat (- x)) else decimal (nat x))"

definition sample_ParseFloat :: "string \<Rightarrow> int option" where
  "sample_ParseFloat s = (case ParseInt s of Inl e \<Rightarrow> None | Inr w \<Rightarrow> Some (sint w))"

definition unit_ns :: "string \<Rightarrow> nat option" where
  "unit_ns u =
     (if u = ''ns'' then Some 1
      else if u = ''us'' then Some 1000
      else if u = ''ms'' then Some 1000000
      else if u = ''s'' then Some 1000000000
      else if u = ''m'' then Some 60000000000
      else if u = ''h'' then Some 3600000000000
      else None)"

definition sample_ParseDuration :: "string \<Rightarrow> 64 word option" where
  "sample_ParseDuration s =
     (let neg = (s \<noteq> [] \<and> hd s = CHR ''-'');
          r = (if s \<noteq> [] \<and> (hd s = CHR ''+'' \<or> hd s = CHR ''-'') then tl s else s)
      in if r = ''0'' then Some 0
         else if takeWhile is_digit r = [] then None
         else (case (digits_value 0 (takeWhile is_digit r), unit_ns (dropWhile is_digit r)) of
                 (Some n, Some k) \<Rightarrow>
                   if n * k < 2 ^ 63
                   then Some (if neg then - word_of_nat (n * k) else word_of_nat (n * k))
                   else None
               | _ \<Rightarrow> None))"

definition sample_json :: "string \<Rightarrow> (string \<times> int val) list option" where
  \<open>sample_json data =
     (if data = ''{"tags": ["a","b"]}'' then Some [(''tags'', VArray [VString ''a'', VString ''b''])]
      else if data = ''{"tags": ["c"]}'' then Some [(''tags'', VArray [VString ''c''])]
      else if data = ''{"port": 9090}'' then Some [(''port'', VFloat 9090)]
      else None)\<close>

definition sample_yaml :: "string \<Rightarrow> (string \<times> int val) list option" where
  "sample_yaml data =
     (if data = ''port: 9090'' then Some [(''port'', VInt 9090)]
      else if data = ''host: example'' then Some [(''host'', VString ''example'')]
      else None)"

definition sample_ini :: "string \<Rightarrow> (string \<Rightarrow> string) option" where
  "sample_ini data =
     (if data = ''port = 9090'' then Some (\<lambda>key. if key = ''port'' then ''9090'' else [])
      else None)"

definition sample :: "int world" where
  "sample =
     \<lparr> float_to_int = word_of_int,
       ParseFloat = sample_ParseFloat,
       FormatFloat = sample_FormatFloat,
       ParseDuration = sample_ParseDuration,
       ToLowerUnicode = (\<lambda>s. s),
       LookupEnv = Map.empty,
       ReadFile = Map.empty,
       json_Unmarshal = sample_json,
       yaml_Unmarshal = sample_yaml,
       ini_Load = sample_ini,
       range_keys = (\<lambda>m. filter (\<lambda>k. m k \<noteq> None)
                       [''port'', ''size'', ''ratio'', ''host'', ''debug'', ''timeout'', ''tags'',
                        ''labels'']) \<rparr>"

definition sample_conf :: "int Configurable" where
  "sample_conf =
     \<lparr> flags = [''port'' \<mapsto> PInt 8080, ''size'' \<mapsto> PInt64 1, ''ratio'' \<mapsto> PFloat64 1,
                ''host'' \<mapsto> PString ''localhost'', ''debug'' \<mapsto> PBool False,
                ''timeout'' \<mapsto> PDuration 1000000000, ''tags'' \<mapsto> PListFlag [''x''],
                ''labels'' \<mapsto> PMapFlag (Some [''env'' \<mapsto> ''dev''])],
       formal = {''port'', ''size'', ''ratio'', ''host'', ''debug'', ''timeout'', ''tags'', ''labels''},
       undef = {} \<rparr>"

definition sample_env :: "int world" where
  "sample_env =
     sample\<lparr>LookupEnv := [''port'' \<mapsto> ''9090'', ''size'' \<mapsto> ''-7'', ''ratio'' \<mapsto> ''3'',
                           ''host'' \<mapsto> ''example'', ''debug'' \<mapsto> ''true'', ''timeout'' \<mapsto> ''5m'',
                           ''tags'' \<mapsto> ''a,b'', ''labels'' \<mapsto> ''k1=v1'']\<rparr>"

definition empty_tags :: "int Configurable" where
  "empty_tags = \<lparr> flags = [''tags'' \<mapsto> PListFlag []], formal = {''tags''}, undef = {} \<rparr>"

definition sample_files :: "int world" where
  \<open>sample_files =
     sample\<lparr>ReadFile := [''config.JSON'' \<mapsto> ''{"port": 9090}'', ''config.json'' \<mapsto> ''{"port": 9090}'',
                          ''conf.Yaml'' \<mapsto> ''host: example'', ''conf.yaml'' \<mapsto> ''host: example'',
                          ''conf.YML'' \<mapsto> ''host: example'', ''conf.yml'' \<mapsto> ''host: example'',
                          ''app.INI'' \<mapsto> ''port = 9090'', ''app.ini'' \<mapsto> ''port = 9090'',
                          ''notes.txt'' \<mapsto> ''port = 9090'']\<rparr>\<close>

text \<open>The equations that run the small world.\<close>

lemmas sample_simps =
  sample_def sample_env_def sample_conf_def sample_ParseFloat_def sample_FormatFloat_def
  sample_ParseDuration_def unit_ns_def is_digit_def ParseInt_def Atoi_def ParseBool_def
  SplitN2_def sample_json_def sample_yaml_def sample_ini_def

section \<open>Registration followed by a read\<close>

lemma register_getter:
  assumes "\<not> (name \<noteq> [] \<and> hd name = CHR ''-'')" and "CHR ''='' \<notin> set name"
    and "name \<notin> formal c" and "name \<notin> undef c"
    and "LookupEnv W name = None" and "sel (ptr v) = Some v"
  shows "\<exists>c'. register ptr c name v = Ret (c', v) \<and> getter sel W c' name = Ret (c', Some v)"
  using assms by (simp add: register_def flag_Var_def getter_def checkAndSetFromEnv_def)

text \<open>
  Claim C4, as the code has it. Take a name that the flag package takes for a new flag:
  it does not begin with \<open>-\<close>, contains no \<open>=\<close>, is not defined yet and was not set
  before being defined. For each of the eight slot types, registering under that name
  with a default value returns; the getter of the same type, called next with no
  environment variable of that name, returns a pointer that is not nil and whose cell
  holds the default, and leaves the registry as it was.
\<close>

theorem register_then_get_returns_default:
  assumes "\<not> (name \<noteq> [] \<and> hd name = CHR ''-'')" and "CHR ''='' \<notin> set name"
    and "name \<notin> formal c" and "name \<notin> undef c" and "LookupEnv W name = None"
  shows "(\<exists>c'. NewInt c name i = Ret (c', i) \<and> Int_get W c' name = Ret (c', Some i))
    \<and> (\<exists>c'. NewInt64 c name j = Ret (c', j) \<and> Int64 W c' name = Ret (c', Some j))
    \<and> (\<exists>c'. NewFloat64 c name x = Ret (c', x) \<and> Float64 W c' name = Ret (c', Some x))
    \<and> (\<exists>c'. NewString c name s = Ret (c', s) \<and> String W c' name = Ret (c', Some s))
    \<and> (\<exists>c'. NewBool c name b = Ret (c', b) \<and> Bool W c' name = Ret (c', Some b))
    \<and> (\<exists>c'. NewDuration c name d = Ret (c', d) \<and> Duration W c' name = Ret (c', Some d))
    \<and> (\<exists>c'. NewList c name l = Ret (c', l) \<and> List W c' name = Ret (c', Some l))
    \<and> (\<exists>c'. NewMap c name m = Ret (c', m) \<and> Map W c' name = Ret (c', Some m))"
  unfolding NewInt_def Int_get_def NewInt64_def Int64_def NewFloat64_def Float64_def
    NewString_def String_def NewBool_def Bool_def NewDuration_def Duration_def
    NewList_def List_def NewMap_def Map_def
  by (intro conjI; rule register_getter [OF assms]; simp)

theorem register_then_get_returns_default_witness:
  "\<not> (''port'' \<noteq> [] \<and> hd ''port'' = CHR ''-'') \<and> CHR ''='' \<notin> set ''port''
   \<and> ''port'' \<notin> formal (New {''v''} {''w''} :: int Configurable)
   \<and> ''port'' \<notin> undef (New {''v''} {''w''} :: int Configurable)
   \<and> LookupEnv sample ''port'' = None
   \<and> (\<exists>c'. NewInt (New {''v''} {''w''}) ''port'' 8080 = Ret (c', 8080)
            \<and> Int_get sample c' ''port'' = Ret (c', Some 8080))
   \<and> (\<exists>c'. NewList (New {''v''} {''w''}) ''port'' [''a''] = Ret (c', [''a''])
            \<and> List sample c' ''port'' = Ret (c', Some [''a'']))
   \<and> (\<exists>c'. NewMap (New {''v''} {''w''}) ''port'' None = Ret (c', None)
            \<and> Map sample c' ''port'' = Ret (c', Some None))"
  using register_then_get_returns_default
    [of "''port''" "New {''v''} {''w''}" sample 8080 0 0 "[]" False 0 "[''a'']" None]
  by (simp add: New_def sample_def)

text \<open>
  Claim C4 as stated fails for a fresh name that the flag package refuses. In a registry
  just made, with nothing defined, registering under \<open>-x\<close> or under \<open>a=b\<close> panics, and
  so does registering under \<open>port\<close> when \<open>port\<close> was set before being defined: no
  pointer is returned at all.
\<close>

theorem register_fresh_name_counterexample:
  "flags (New {} {} :: int Configurable) ''-x'' = None
   \<and> ''-x'' \<notin> formal (New {} {} :: int Configurable)
   \<and> LookupEnv sample ''-x'' = None
   \<and> NewInt (New {} {} :: int Configurable) ''-x'' 8080 = Panic
   \<and> flags (New {} {} :: int Configurable) ''a=b'' = None
   \<and> ''a=b'' \<notin> formal (New {} {} :: int Configurable)
   \<and> NewMap (New {} {} :: int Configurable) ''a=b'' (Some Map.empty) = Panic
   \<and> flags (New {} {''port''} :: int Configurable) ''port'' = None
   \<and> ''port'' \<notin> formal (New {} {''port''} :: int Configurable)
   \<and> NewInt (New {} {''port''} :: int Configurable) ''port'' 8080 = Panic"
  by (simp add: New_def sample_def NewInt_def NewMap_def register_def flag_Var_def)

section \<open>Reading a slot whose environment variable is set\<close>

lemma Split_not_Nil: "Split s sep \<noteq> []"
  by (induction s) (auto split: list.splits)

lemma setValue_list_string:
  "setValue W (PListFlag l) (VString s) =
     Ret (PListFlag (l @ (if s = [] then [] else Split s CHR '','')), None)"
  by (simp add: setValue_def toStringSlice_def)

text \<open>
  Claim C1, as the code has it. Let the environment variable \<open>name\<close> be set to \<open>s\<close>.
  For a slot of type int, int64, float64, string, bool or duration, when \<open>s\<close> parses as
  that type, the getter of the type stores the parsed value in the cell, whatever it
  held, and returns the pointer to it. For a list slot the getter appends to the cell:
  nothing when \<open>s\<close> is empty, the pieces of \<open>s\<close> between commas otherwise. For a map
  slot whose map is not nil, when \<open>s\<close> converts to a map, the getter adds its entries
  to the cell's map, which keeps its other keys.
\<close>

theorem getter_applies_environment:
  assumes "LookupEnv W name = Some s"
  shows "(flags c name = Some (PInt i) \<and> Atoi s = Inr n \<longrightarrow>
            Int_get W c name = Ret (c\<lparr>flags := (flags c)(name \<mapsto> PInt n)\<rparr>, Some n))
    \<and> (flags c name = Some (PInt64 i) \<and> ParseInt s = Inr n \<longrightarrow>
            Int64 W c name = Ret (c\<lparr>flags := (flags c)(name \<mapsto> PInt64 n)\<rparr>, Some n))
    \<and> (flags c name = Some (PFloat64 x) \<and> ParseFloat W s = Some y \<longrightarrow>
            Float64 W c name = Ret (c\<lparr>flags := (flags c)(name \<mapsto> PFloat64 y)\<rparr>, Some y))
    \<and> (flags c name = Some (PString t) \<longrightarrow>
            String W c name = Ret (c\<lparr>flags := (flags c)(name \<mapsto> PString s)\<rparr>, Some s))
    \<and> (flags c name = Some (PBool a) \<and> ParseBool s = Inr b \<longrightarrow>
            Bool W c name = Ret (c\<lparr>flags := (flags c)(name \<mapsto> PBool b)\<rparr>, Some b))
    \<and> (flags c name = Some (PDuration d) \<and> ParseDuration W s = Some d' \<longrightarrow>
            Duration W c name = Ret (c\<lparr>flags := (flags c)(name \<mapsto> PDuration d')\<rparr>, Some d'))
    \<and> (flags c name = Some (PListFlag l) \<longrightarrow>
            List W c name =
              Ret (c\<lparr>flags := (flags c)(name \<mapsto>
                     PListFlag (l @ (if s = [] then [] else Split s CHR '','')))\<rparr>,
                   Some (l @ (if s = [] then [] else Split s CHR '',''))))
    \<and> (flags c name = Some (PMapFlag (Some m)) \<and> toStringMap W (VString s) = Inr m' \<longrightarrow>
            Map W c name =
              Ret (c\<lparr>flags := (flags c)(name \<mapsto> PMapFlag (Some (m ++ m')))\<rparr>, Some (Some (m ++ m'))))"
  using assms
  by (simp add: Int_get_def Int64_def Float64_def String_def Bool_def Duration_def List_def
      Map_def getter_def checkAndSetFromEnv_def setValue_def toInt_def toInt64_def
      toFloat64_def toString_def toBool_def toStringSlice_def)


theorem getter_applies_environment_witness:
  "(\<exists>c'. Int_get sample_env sample_conf ''port'' = Ret (c', Some 9090))
   \<and> (\<exists>c'. Int64 sample_env sample_conf ''size'' = Ret (c', Some (- 7)))
   \<and> (\<exists>c'. Float64 sample_env sample_conf ''ratio'' = Ret (c', Some 3))
   \<and> (\<exists>c'. String sample_env sample_conf ''host'' = Ret (c', Some ''example''))
   \<and> (\<exists>c'. Bool sample_env sample_conf ''debug'' = Ret (c', Some True))
   \<and> (\<exists>c'. Duration sample_env sample_conf ''timeout'' = Ret (c', Some 300000000000))
   \<and> (\<exists>c'. List sample_env sample_conf ''tags'' = Ret (c', Some [''x'', ''a'', ''b'']))
   \<and> (\<exists>c'. Map sample_env sample_conf ''labels''
               = Ret (c', Some (Some [''env'' \<mapsto> ''dev'', ''k1'' \<mapsto> ''v1''])))"
proof -
  have port: "LookupEnv sample_env ''port'' = Some ''9090''"
    and size: "LookupEnv sample_env ''size'' = Some ''-7''"
    and ratio: "LookupEnv sample_env ''ratio'' = Some ''3''"
    and host: "LookupEnv sample_env ''host'' = Some ''example''"
    and debug: "LookupEnv sample_env ''debug'' = Some ''true''"
    and timeout: "LookupEnv sample_env ''timeout'' = Some ''5m''"
    and tags: "LookupEnv sample_env ''tags'' = Some ''a,b''"
    and labels: "LookupEnv sample_env ''labels'' = Some ''k1=v1''"
    by (simp_all add: sample_env_def)
  have 1: "\<exists>c'. Int_get sample_env sample_conf ''port'' = Ret (c', Some 9090)"
    using getter_applies_environment [OF port, where c = sample_conf and i = 8080 and n = 9090]
    by (simp add: sample_simps)
  have 2: "\<exists>c'. Int64 sample_env sample_conf ''size'' = Ret (c', Some (- 7))"
    using getter_applies_environment [OF size, where c = sample_conf and i = 1 and n = "- 7"]
    by (simp add: sample_simps)
  have 3: "\<exists>c'. Float64 sample_env sample_conf ''ratio'' = Ret (c', Some 3)"
    using getter_applies_environment [OF ratio, where c = sample_conf and x = 1 and y = 3]
    by (simp add: sample_simps)
  have 4: "\<exists>c'. String sample_env sample_conf ''host'' = Ret (c', Some ''example'')"
    using getter_applies_environment [OF host, where c = sample_conf and t = "''localhost''"]
    by (simp add: sample_simps)
  have 5: "\<exists>c'. Bool sample_env sample_conf ''debug'' = Ret (c', Some True)"
    using getter_applies_environment [OF debug, where c = sample_conf and a = False and b = True]
    by (simp add: sample_simps)
  have 6: "\<exists>c'. Duration sample_env sample_conf ''timeout'' = Ret (c', Some 300000000000)"
    using getter_applies_environment
      [OF timeout, where c = sample_conf and d = 1000000000 and d' = 300000000000]
    by (simp add: sample_simps)
  have 7: "\<exists>c'. List sample_env sample_conf ''tags'' = Ret (c', Some [''x'', ''a'', ''b''])"
    using getter_applies_environment [OF tags, where c = sample_conf and l = "[''x'']"]
    by (simp add: sample_simps)
  have 8: "\<exists>c'. Map sample_env sample_conf ''labels''
               = Ret (c', Some (Some [''env'' \<mapsto> ''dev'', ''k1'' \<mapsto> ''v1'']))"
    using getter_applies_environment
      [OF labels, where c = sample_conf and m = "[''env'' \<mapsto> ''dev'']" and m' = "[''k1'' \<mapsto> ''v1'']"]
    by (simp add: sample_simps toStringMap_def)
  from 1 2 3 4 5 6 7 8 show ?thesis by blast
qed

text \<open>
  Claim C1 as stated fails for a list slot: with \<open>tags\<close> holding \<open>x\<close> and the variable
  \<open>tags\<close> set to \<open>a,b\<close>, which converts to the list \<open>a\<close>, \<open>b\<close>, the getter returns a
  pointer to \<open>x\<close>, \<open>a\<close>, \<open>b\<close>: the value is appended to, not overwritten.
\<close>

theorem getter_overwrites_counterexample:
  "toStringSlice sample_env (VString ''a,b'') = Inr [''a'', ''b'']
   \<and> List sample_env sample_conf ''tags''
       = Ret (sample_conf\<lparr>flags := (flags sample_conf)(''tags'' \<mapsto> PListFlag [''x'', ''a'', ''b''])\<rparr>,
              Some [''x'', ''a'', ''b''])
   \<and> [''x'', ''a'', ''b''] \<noteq> [''a'', ''b'']"
  by (simp add: List_def getter_def checkAndSetFromEnv_def setValue_def toStringSlice_def
      sample_env_def sample_conf_def)

text \<open>
  Claim C9. While the environment variable of a list slot holds a non-empty string,
  each call of the getter \<open>List\<close> appends the pieces of that string between commas to
  the cell: after two calls they stand there twice, and the second call does not return
  what the first returned.
\<close>

theorem List_getter_appends_on_every_read:
  assumes "flags c name = Some (PListFlag l)" and "LookupEnv W name = Some s" and "s \<noteq> []"
  shows "List W c name
           = Ret (c\<lparr>flags := (flags c)(name \<mapsto> PListFlag (l @ Split s CHR '',''))\<rparr>,
                  Some (l @ Split s CHR '',''))
    \<and> List W (c\<lparr>flags := (flags c)(name \<mapsto> PListFlag (l @ Split s CHR '',''))\<rparr>) name
           = Ret (c\<lparr>flags := (flags c)(name \<mapsto>
                     PListFlag (l @ Split s CHR '','' @ Split s CHR '',''))\<rparr>,
                  Some (l @ Split s CHR '','' @ Split s CHR '',''))
    \<and> l @ Split s CHR '','' @ Split s CHR '','' \<noteq> l @ Split s CHR '',''"
  using assms Split_not_Nil [of s "CHR '',''"]
  by (simp add: List_def getter_def checkAndSetFromEnv_def setValue_list_string)

theorem List_getter_appends_on_every_read_witness:
  "flags sample_conf ''tags'' = Some (PListFlag [''x''])
   \<and> LookupEnv sample_env ''tags'' = Some ''a,b'' \<and> ''a,b'' \<noteq> []
   \<and> List sample_env sample_conf ''tags''
        = Ret (sample_conf\<lparr>flags := (flags sample_conf)(''tags'' \<mapsto> PListFlag [''x'', ''a'', ''b''])\<rparr>,
               Some [''x'', ''a'', ''b''])
   \<and> List sample_env
        (sample_conf\<lparr>flags := (flags sample_conf)(''tags'' \<mapsto> PListFlag [''x'', ''a'', ''b''])\<rparr>) ''tags''
        = Ret (sample_conf\<lparr>flags := (flags sample_conf)(''tags'' \<mapsto>
                  PListFlag [''x'', ''a'', ''b'', ''a'', ''b''])\<rparr>,
               Some [''x'', ''a'', ''b'', ''a'', ''b''])"
  using List_getter_appends_on_every_read [of sample_conf "''tags''" "[''x'']" sample_env "''a,b''"]
  by (simp add: sample_env_def sample_conf_def)

section \<open>Setting a map slot from a raw string\<close>

lemma MapFlag_Set_two:
  "MapFlag_Set (Some m) ''k1=v1,k2=v2'' = Ret (Some (m(''k1'' \<mapsto> ''v1'', ''k2'' \<mapsto> ''v2'')), None)"
  by (simp add: MapFlag_Set_def SplitN2_def)

lemma MapFlag_Set_bad: "MapFlag_Set mv ''bad'' = Ret (mv, Some (InvalidMapItem ''bad''))"
  by (simp add: MapFlag_Set_def SplitN2_def)

lemma setValue_map_two:
  "setValue W (PMapFlag (Some m)) (VString ''k1=v1,k2=v2'')
     = Ret (PMapFlag (Some (m(''k1'' \<mapsto> ''v1'', ''k2'' \<mapsto> ''v2''))), None)"
  by (simp add: setValue_def toStringMap_def SplitN2_def)

lemma setValue_map_bad:
  "setValue W (PMapFlag mv) (VString ''bad'') = Ret (PMapFlag mv, Some (InvalidMapItem ''bad''))"
  by (simp add: setValue_def toStringMap_def SplitN2_def)

text \<open>
  Claim C7, as the code has it. Setting a map slot that holds a map \<open>m\<close> from
  \<open>k1=v1,k2=v2\<close> returns no error and writes the two entries into \<open>m\<close>, which keeps
  its other keys: an empty map becomes the map of exactly \<open>k1\<close> to \<open>v1\<close> and \<open>k2\<close>
  to \<open>v2\<close>. Setting a map slot from \<open>bad\<close> returns the error for an invalid map item
  and leaves the map as it was. Both hold for \<open>MapFlag.Set\<close>, the way of the command
  line, and for \<open>setValue\<close>, the way of the environment and of the files.
\<close>

theorem map_slot_set_from_raw_string:
  "MapFlag_Set (Some Map.empty) ''k1=v1,k2=v2''
      = Ret (Some [''k1'' \<mapsto> ''v1'', ''k2'' \<mapsto> ''v2''], None)
   \<and> setValue W (PMapFlag (Some Map.empty)) (VString ''k1=v1,k2=v2'')
      = Ret (PMapFlag (Some [''k1'' \<mapsto> ''v1'', ''k2'' \<mapsto> ''v2'']), None)
   \<and> dom [''k1'' \<mapsto> ''v1'', ''k2'' \<mapsto> ''v2''] = {''k1'', ''k2''}
   \<and> MapFlag_Set (Some m) ''k1=v1,k2=v2''
      = Ret (Some (m(''k1'' \<mapsto> ''v1'', ''k2'' \<mapsto> ''v2'')), None)
   \<and> setValue W (PMapFlag (Some m)) (VString ''k1=v1,k2=v2'')
      = Ret (PMapFlag (Some (m(''k1'' \<mapsto> ''v1'', ''k2'' \<mapsto> ''v2''))), None)
   \<and> MapFlag_Set mv ''bad'' = Ret (mv, Some (InvalidMapItem ''bad''))
   \<and> setValue W (PMapFlag mv) (VString ''bad'')
      = Ret (PMapFlag mv, Some (InvalidMapItem ''bad''))"
  by (simp add: MapFlag_Set_two MapFlag_Set_bad setValue_map_two setValue_map_bad insert_commute)

text \<open>
  Claim C7 as stated fails in its first half. A slot whose map holds \<open>env\<close> ends with
  three entries, not exactly two, since the set writes into the current map. And a slot
  registered with a nil map, which \<open>NewMap\<close> takes, panics at the first pair, on
  either way.
\<close>

theorem map_slot_exactly_two_counterexample:
  "MapFlag_Set (Some [''env'' \<mapsto> ''dev'']) ''k1=v1,k2=v2''
      = Ret (Some [''env'' \<mapsto> ''dev'', ''k1'' \<mapsto> ''v1'', ''k2'' \<mapsto> ''v2''], None)
   \<and> [''env'' \<mapsto> ''dev'', ''k1'' \<mapsto> ''v1'', ''k2'' \<mapsto> ''v2''] ''env'' = Some ''dev''
   \<and> [''k1'' \<mapsto> ''v1'', ''k2'' \<mapsto> ''v2''] ''env'' = None
   \<and> NewMap (New {} {} :: int Configurable) ''labels'' None
      = Ret (\<lparr>flags = [''labels'' \<mapsto> PMapFlag None], formal = {''labels''}, undef = {}\<rparr>, None)
   \<and> MapFlag_Set None ''k1=v1,k2=v2'' = Panic
   \<and> setValue sample (PMapFlag None) (VString ''k1=v1,k2=v2'') = Panic"
  by (simp add: MapFlag_Set_def setValue_def toStringMap_def SplitN2_def NewMap_def register_def
      flag_Var_def New_def)

text \<open>
  Claim C3 at \<open>MapFlag.Set\<close>: on the raw string \<open>a=1,bad\<close> the method stores \<open>a\<close>
  and then returns the error for \<open>bad\<close>, so a failed set has changed the map.
  \<open>setValue\<close>, on the same string, builds the map aside in \<open>toStringMap\<close> and leaves
  the slot untouched.
\<close>

theorem MapFlag_Set_keeps_pairs_before_error:
  "MapFlag_Set (Some Map.empty) ''a=1,bad''
      = Ret (Some [''a'' \<mapsto> ''1''], Some (InvalidMapItem ''bad''))
   \<and> Some [''a'' \<mapsto> ''1''] \<noteq> Some Map.empty
   \<and> setValue W (PMapFlag (Some Map.empty)) (VString ''a=1,bad'')
      = Ret (PMapFlag (Some Map.empty), Some (InvalidMapItem ''bad''))"
  by (simp add: MapFlag_Set_def setValue_def toStringMap_def SplitN2_def)

section \<open>A coercion error during a load\<close>

text \<open>
  An error of \<open>setValue\<close> comes before any write to the cell.
\<close>

lemma setValue_error_unchanged: "setValue W p v = Ret (p', Some e) \<Longrightarrow> p' = p"
  by (auto simp: setValue_def split: slot.splits sum.splits option.splits if_splits)

lemma setValuesFromMap_append:
  "setValuesFromMap W c pre = Ret (c1, None) \<Longrightarrow>
   setValuesFromMap W c (pre @ rest) = setValuesFromMap W c1 rest"
proof (induction pre arbitrary: c)
  case Nil
  then show ?case by simp
next
  case (Cons kv pre)
  obtain key v where kv: "kv = (key, v)" by (cases kv)
  show ?case
  proof (cases "flags c key")
    case None
    with Cons kv show ?thesis by simp
  next
    case (Some flagVal)
    with Cons.prems kv obtain p where
      ok: "setValue W flagVal v = Ret (p, None)"
      and rest: "setValuesFromMap W (c\<lparr>flags := (flags c)(key \<mapsto> p)\<rparr>) pre = Ret (c1, None)"
      by (auto split: go.splits option.splits)
    from Cons.IH [OF rest] Some ok kv show ?thesis by simp
  qed
qed

text \<open>
  Claim C2, as the code has it. A load visits the decoded entries in some order. When
  the entries \<open>pre\<close> visited first are applied without error and the next one, for
  the registered key \<open>key\<close>, fails to convert, the load returns at once: its error
  names \<open>key\<close>, the registry is as \<open>pre\<close> left it (nothing is rolled back, and the
  failing slot is untouched), and the entries \<open>post\<close> that would come after are not
  looked at.
\<close>

theorem setValuesFromMap_stops_at_first_error:
  assumes "setValuesFromMap W c pre = Ret (c1, None)"
    and "flags c1 key = Some p" and "setValue W p v = Ret (p', Some e)"
  shows "setValuesFromMap W c (pre @ (key, v) # post) = Ret (c1, Some (ErrorSettingKey key e))"
proof -
  from assms(3) have "p' = p" by (rule setValue_error_unchanged)
  with assms(2) have same: "c1\<lparr>flags := (flags c1)(key \<mapsto> p')\<rparr> = c1"
    by (simp add: map_upd_triv)
  have "setValuesFromMap W c (pre @ (key, v) # post) = setValuesFromMap W c1 ((key, v) # post)"
    using assms(1) by (rule setValuesFromMap_append)
  also have "\<dots> = Ret (c1\<lparr>flags := (flags c1)(key \<mapsto> p')\<rparr>, Some (ErrorSettingKey key e))"
    using assms(2,3) by simp
  finally show ?thesis using same by simp
qed

theorem setValuesFromMap_stops_at_first_error_witness:
  "setValuesFromMap sample sample_conf [(''port'', VString ''9090'')]
      = Ret (sample_conf\<lparr>flags := (flags sample_conf)(''port'' \<mapsto> PInt 9090)\<rparr>, None)
   \<and> flags (sample_conf\<lparr>flags := (flags sample_conf)(''port'' \<mapsto> PInt 9090)\<rparr>) ''debug''
      = Some (PBool False)
   \<and> setValue sample (PBool False) VNil = Ret (PBool False, Some (CannotConvert ''bool''))
   \<and> setValuesFromMap sample sample_conf
        ([(''port'', VString ''9090'')] @ (''debug'', VNil) # [(''host'', VString ''example'')])
      = Ret (sample_conf\<lparr>flags := (flags sample_conf)(''port'' \<mapsto> PInt 9090)\<rparr>,
             Some (ErrorSettingKey ''debug'' (CannotConvert ''bool'')))"
proof -
  have a: "setValuesFromMap sample sample_conf [(''port'', VString ''9090'')]
      = Ret (sample_conf\<lparr>flags := (flags sample_conf)(''port'' \<mapsto> PInt 9090)\<rparr>, None)"
    by (simp add: sample_conf_def setValue_def toInt_def Atoi_def ParseInt_def is_digit_def)
  have b: "flags (sample_conf\<lparr>flags := (flags sample_conf)(''port'' \<mapsto> PInt 9090)\<rparr>) ''debug''
      = Some (PBool False)"
    by (simp add: sample_conf_def)
  have c: "setValue sample (PBool False) VNil = Ret (PBool False, Some (CannotConvert ''bool''))"
    by (simp add: setValue_def toBool_def)
  from a b c setValuesFromMap_stops_at_first_error [OF a b c, of "[(''host'', VString ''example'')]"]
  show ?thesis by simp
qed

text \<open>
  Claim C2 as stated fails: in a load that visits \<open>debug\<close>, with a value that is no
  bool, and then \<open>host\<close>, with a value that its slot would take, the error for
  \<open>debug\<close> ends the load and \<open>host\<close> keeps its old value.
\<close>

theorem load_continues_after_error_counterexample:
  "setValuesFromMap sample sample_conf [(''debug'', VNil), (''host'', VString ''example'')]
      = Ret (sample_conf, Some (ErrorSettingKey ''debug'' (CannotConvert ''bool'')))
   \<and> flags sample_conf ''host'' = Some (PString ''localhost'')
   \<and> setValue sample (PString ''localhost'') (VString ''example'') = Ret (PString ''example'', None)"
proof -
  have debug: "flags sample_conf ''debug'' = Some (PBool False)"
    and host: "flags sample_conf ''host'' = Some (PString ''localhost'')"
    by (simp_all add: sample_conf_def)
  have same: "sample_conf\<lparr>flags := (flags sample_conf)(''debug'' \<mapsto> PBool False)\<rparr> = sample_conf"
    using debug by (simp add: map_upd_triv)
  have "setValue sample (PBool False) VNil = Ret (PBool False, Some (CannotConvert ''bool''))"
    by (simp add: setValue_def toBool_def)
  with debug same have
    "setValuesFromMap sample sample_conf [(''debug'', VNil), (''host'', VString ''example'')]
      = Ret (sample_conf, Some (ErrorSettingKey ''debug'' (CannotConvert ''bool'')))"
    by simp
  moreover have
    "setValue sample (PString ''localhost'') (VString ''example'') = Ret (PString ''example'', None)"
    by (simp add: setValue_def toString_def)
  ultimately show ?thesis using host by simp
qed


section \<open>Setting a list slot\<close>

lemma toStringSlice_items_strings:
  "toStringSlice_items W acc (map VString xs) = Inr (acc @ xs)"
  by (induction xs arbitrary: acc) (simp_all add: toString_def)

lemma setValue_list_strings:
  "setValue W (PListFlag l) (VArray (map VString xs)) = Ret (PListFlag (l @ xs), None)"
  by (simp add: setValue_def toStringSlice_def toStringSlice_items_strings)

lemma loadJSON_tags:
  assumes "json_Unmarshal W doc = Some [(''tags'', VArray (map VString xs))]"
    and "flags c ''tags'' = Some (PListFlag l)"
  shows "loadJSON W c doc = Ret (c\<lparr>flags := (flags c)(''tags'' \<mapsto> PListFlag (l @ xs))\<rparr>, None)"
  using assms by (simp add: loadJSON_def setValue_list_strings)

text \<open>
  Claim C6, as the code has it. No set of a list slot replaces its content; each one
  appends to the current sequence \<open>l\<close>. An occurrence on the command line appends the
  pieces of its input between commas. A string from the environment or from a file
  appends the pieces between commas too, and nothing at all when it is empty. A
  sequence of strings from a file is appended item by item, with no splitting. Loading
  a document that decodes to \<open>tags\<close> with \<open>a\<close>, \<open>b\<close> and then one that decodes to
  \<open>tags\<close> with \<open>c\<close> leaves \<open>l\<close> followed by \<open>a\<close>, \<open>b\<close>, \<open>c\<close>.
\<close>

theorem list_slot_accumulates:
  assumes "json_Unmarshal W doc1 = Some [(''tags'', VArray [VString ''a'', VString ''b''])]"
    and "json_Unmarshal W doc2 = Some [(''tags'', VArray [VString ''c''])]"
    and "flags c ''tags'' = Some (PListFlag l)"
  shows "ListFlag_Set l raw = Ret (l @ Split raw CHR '','', None)
    \<and> setValue W (PListFlag l) (VString s)
         = Ret (PListFlag (l @ (if s = [] then [] else Split s CHR '','')), None)
    \<and> setValue W (PListFlag l) (VArray (map VString xs)) = Ret (PListFlag (l @ xs), None)
    \<and> loadJSON W c doc1
         = Ret (c\<lparr>flags := (flags c)(''tags'' \<mapsto> PListFlag (l @ [''a'', ''b'']))\<rparr>, None)
    \<and> loadJSON W (c\<lparr>flags := (flags c)(''tags'' \<mapsto> PListFlag (l @ [''a'', ''b'']))\<rparr>) doc2
         = Ret (c\<lparr>flags := (flags c)(''tags'' \<mapsto> PListFlag (l @ [''a'', ''b'', ''c'']))\<rparr>, None)"
proof -
  have 1: "loadJSON W c doc1
         = Ret (c\<lparr>flags := (flags c)(''tags'' \<mapsto> PListFlag (l @ [''a'', ''b'']))\<rparr>, None)"
    using loadJSON_tags [of W doc1 "[''a'', ''b'']" c l] assms(1,3) by simp
  have 2: "loadJSON W (c\<lparr>flags := (flags c)(''tags'' \<mapsto> PListFlag (l @ [''a'', ''b'']))\<rparr>) doc2
         = Ret (c\<lparr>flags := (flags c)(''tags'' \<mapsto> PListFlag (l @ [''a'', ''b'', ''c'']))\<rparr>, None)"
    using loadJSON_tags [of W doc2 "[''c'']"
        "c\<lparr>flags := (flags c)(''tags'' \<mapsto> PListFlag (l @ [''a'', ''b'']))\<rparr>" "l @ [''a'', ''b'']"]
      assms(2) by simp
  from 1 2 show ?thesis
    by (simp add: ListFlag_Set_def setValue_list_string setValue_list_strings)
qed

theorem list_slot_accumulates_witness:
  \<open>json_Unmarshal sample ''{"tags": ["a","b"]}'' = Some [(''tags'', VArray [VString ''a'', VString ''b''])]
   \<and> json_Unmarshal sample ''{"tags": ["c"]}'' = Some [(''tags'', VArray [VString ''c''])]
   \<and> flags empty_tags ''tags'' = Some (PListFlag [])
   \<and> loadJSON sample empty_tags ''{"tags": ["a","b"]}''
        = Ret (empty_tags\<lparr>flags := (flags empty_tags)(''tags'' \<mapsto> PListFlag [''a'', ''b''])\<rparr>, None)
   \<and> loadJSON sample (empty_tags\<lparr>flags := (flags empty_tags)(''tags'' \<mapsto> PListFlag [''a'', ''b''])\<rparr>)
          ''{"tags": ["c"]}''
        = Ret (empty_tags\<lparr>flags := (flags empty_tags)(''tags'' \<mapsto> PListFlag [''a'', ''b'', ''c''])\<rparr>, None)\<close>
proof -
  have 1: \<open>json_Unmarshal sample ''{"tags": ["a","b"]}''
             = Some [(''tags'', VArray [VString ''a'', VString ''b''])]\<close>
    and 2: \<open>json_Unmarshal sample ''{"tags": ["c"]}'' = Some [(''tags'', VArray [VString ''c''])]\<close>
    by (simp_all add: sample_def sample_json_def)
  have 3: "flags empty_tags ''tags'' = Some (PListFlag [])"
    by (simp add: empty_tags_def)
  from 1 2 3 list_slot_accumulates [OF 1 2 3, of "[]" "[]" "[]"] show ?thesis by simp
qed

text \<open>
  Claim C6 as stated fails where it says that every set splits its input on commas: a
  loaded sequence whose one item is \<open>a,b\<close> adds that item whole. And the empty string
  adds one empty piece on the command line but nothing through \<open>setValue\<close>.
\<close>

theorem list_set_splits_sequence_counterexample:
  "setValue sample (PListFlag [''x'']) (VArray [VString ''a,b'']) = Ret (PListFlag [''x'', ''a,b''], None)
   \<and> Split ''a,b'' CHR '','' = [''a'', ''b'']
   \<and> [''x'', ''a,b''] \<noteq> [''x'', ''a'', ''b'']
   \<and> ListFlag_Set [''x''] [] = Ret ([''x'', []], None)
   \<and> setValue sample (PListFlag [''x'']) (VString []) = Ret (PListFlag [''x''], None)"
  by (simp add: setValue_def toStringSlice_def toString_def ListFlag_Set_def)

section \<open>The extension of a loaded file\<close>

lemma ToLower_upper_exts:
  "ToLower W ''.JSON'' = ''.json''" "ToLower W ''.Yaml'' = ''.yaml''"
  "ToLower W ''.YML'' = ''.yml''" "ToLower W ''.INI'' = ''.ini''"
  "ToLower W ''.json'' = ''.json''" "ToLower W ''.yaml'' = ''.yaml''"
  "ToLower W ''.yml'' = ''.yml''" "ToLower W ''.ini'' = ''.ini''"
  unfolding ToLower_def by code_simp+

lemma Ext_append_exts:
  "Ext (b @ ''.JSON'') = ''.JSON''" "Ext (b @ ''.Yaml'') = ''.Yaml''"
  "Ext (b @ ''.YML'') = ''.YML''" "Ext (b @ ''.INI'') = ''.INI''"
  "Ext (b @ ''.json'') = ''.json''" "Ext (b @ ''.yaml'') = ''.yaml''"
  "Ext (b @ ''.yml'') = ''.yml''" "Ext (b @ ''.ini'') = ''.ini''"
  by (simp_all add: Ext_def)

lemma ToLower_txt: "ToLower W ''.txt'' = ''.txt''"
  unfolding ToLower_def by code_simp

lemma sample_files_read: \<open>ReadFile sample_files (''config'' @ ''.JSON'') = Some ''{"port": 9090}''\<close>
    \<open>ReadFile sample_files (''config'' @ ''.json'') = Some ''{"port": 9090}''\<close>
    "ReadFile sample_files (''conf'' @ ''.Yaml'') = Some ''host: example''"
    "ReadFile sample_files (''conf'' @ ''.yaml'') = Some ''host: example''"
    "ReadFile sample_files (''conf'' @ ''.YML'') = Some ''host: example''"
    "ReadFile sample_files (''conf'' @ ''.yml'') = Some ''host: example''"
    "ReadFile sample_files (''app'' @ ''.INI'') = Some ''port = 9090''"
    "ReadFile sample_files (''app'' @ ''.ini'') = Some ''port = 9090''"
    by (simp_all add: sample_files_def)
lemma sample_loadJSON: \<open>loadJSON sample_files sample_conf ''{"port": 9090}''
        = Ret (sample_conf\<lparr>flags := (flags sample_conf)(''port'' \<mapsto> PInt 9090)\<rparr>, None)\<close>
    by (simp add: loadJSON_def sample_files_def sample_def sample_json_def sample_conf_def
        setValue_def toInt_def)
lemma sample_loadYAML: "loadYAML sample_files sample_conf ''host: example''
        = Ret (sample_conf\<lparr>flags := (flags sample_conf)(''host'' \<mapsto> PString ''example'')\<rparr>, None)"
    by (simp add: loadYAML_def sample_files_def sample_def sample_yaml_def sample_conf_def
        setValue_def toString_def)
lemma sample_loadINI: "loadINI sample_files sample_conf ''port = 9090''
        = Ret (sample_conf\<lparr>flags := (flags sample_conf)(''port'' \<mapsto> PInt 9090)\<rparr>, None)"
    by (simp add: loadINI_def sample_files_def sample_def sample_ini_def sample_conf_def
        setValue_def toInt_def Atoi_def ParseInt_def is_digit_def)

text \<open>
  Claim C10. \<open>LoadFile\<close> puts the extension in lower case before it chooses the
  decoder. For any contents \<open>data\<close>, a readable path that ends in \<open>.JSON\<close>,
  \<open>.Yaml\<close>, \<open>.YML\<close> or \<open>.INI\<close> is loaded exactly as a path that ends in the
  lower-case extension and holds the same contents, by the decoder of that format;
  and any two readable paths with the same contents whose extensions agree once
  lowered are loaded alike.
\<close>

theorem LoadFile_extension_case_insensitive:
  "(ReadFile W (b @ ''.JSON'') = Some data \<and> ReadFile W (b' @ ''.json'') = Some data \<longrightarrow>
      LoadFile W c (b @ ''.JSON'') = LoadFile W c (b' @ ''.json'')
      \<and> LoadFile W c (b @ ''.JSON'') = loadJSON W c data)
   \<and> (ReadFile W (b @ ''.Yaml'') = Some data \<and> ReadFile W (b' @ ''.yaml'') = Some data \<longrightarrow>
      LoadFile W c (b @ ''.Yaml'') = LoadFile W c (b' @ ''.yaml'')
      \<and> LoadFile W c (b @ ''.Yaml'') = loadYAML W c data)
   \<and> (ReadFile W (b @ ''.YML'') = Some data \<and> ReadFile W (b' @ ''.yml'') = Some data \<longrightarrow>
      LoadFile W c (b @ ''.YML'') = LoadFile W c (b' @ ''.yml'')
      \<and> LoadFile W c (b @ ''.YML'') = loadYAML W c data)
   \<and> (ReadFile W (b @ ''.INI'') = Some data \<and> ReadFile W (b' @ ''.ini'') = Some data \<longrightarrow>
      LoadFile W c (b @ ''.INI'') = LoadFile W c (b' @ ''.ini'')
      \<and> LoadFile W c (b @ ''.INI'') = loadINI W c data)
   \<and> (ReadFile W p = Some data \<and> ReadFile W q = Some data
        \<and> ToLower W (Ext p) = ToLower W (Ext q) \<longrightarrow>
      LoadFile W c p = LoadFile W c q)"
  unfolding LoadFile_def Ext_append_exts ToLower_upper_exts by simp

theorem LoadFile_extension_case_insensitive_witness:
  \<open>LoadFile sample_files sample_conf (''config'' @ ''.JSON'')
        = LoadFile sample_files sample_conf (''config'' @ ''.json'')
   \<and> LoadFile sample_files sample_conf (''config'' @ ''.JSON'')
        = Ret (sample_conf\<lparr>flags := (flags sample_conf)(''port'' \<mapsto> PInt 9090)\<rparr>, None)
   \<and> LoadFile sample_files sample_conf (''conf'' @ ''.Yaml'')
        = LoadFile sample_files sample_conf (''conf'' @ ''.yaml'')
   \<and> LoadFile sample_files sample_conf (''conf'' @ ''.YML'')
        = LoadFile sample_files sample_conf (''conf'' @ ''.yml'')
   \<and> LoadFile sample_files sample_conf (''conf'' @ ''.YML'')
        = Ret (sample_conf\<lparr>flags := (flags sample_conf)(''host'' \<mapsto> PString ''example'')\<rparr>, None)
   \<and> LoadFile sample_files sample_conf (''app'' @ ''.INI'')
        = LoadFile sample_files sample_conf (''app'' @ ''.ini'')
   \<and> LoadFile sample_files sample_conf (''app'' @ ''.INI'')
        = Ret (sample_conf\<lparr>flags := (flags sample_conf)(''port'' \<mapsto> PInt 9090)\<rparr>, None)\<close>
proof -
  have 1: \<open>LoadFile sample_files sample_conf (''config'' @ ''.JSON'')
             = LoadFile sample_files sample_conf (''config'' @ ''.json'')
           \<and> LoadFile sample_files sample_conf (''config'' @ ''.JSON'')
             = loadJSON sample_files sample_conf ''{"port": 9090}''\<close>
    using LoadFile_extension_case_insensitive
      [where W = sample_files and c = sample_conf and b = "''config''" and b' = "''config''"
        and data = \<open>''{"port": 9090}''\<close> and p = "[]" and q = "[]"] sample_files_read(1,2)
    by blast
  have 2: "LoadFile sample_files sample_conf (''conf'' @ ''.Yaml'')
             = LoadFile sample_files sample_conf (''conf'' @ ''.yaml'')
           \<and> LoadFile sample_files sample_conf (''conf'' @ ''.YML'')
             = LoadFile sample_files sample_conf (''conf'' @ ''.yml'')
           \<and> LoadFile sample_files sample_conf (''conf'' @ ''.YML'')
             = loadYAML sample_files sample_conf ''host: example''"
    using LoadFile_extension_case_insensitive
      [where W = sample_files and c = sample_conf and b = "''conf''" and b' = "''conf''"
        and data = "''host: example''" and p = "[]" and q = "[]"] sample_files_read(3-6)
    by blast
  have 3: "LoadFile sample_files sample_conf (''app'' @ ''.INI'')
             = LoadFile sample_files sample_conf (''app'' @ ''.ini'')
           \<and> LoadFile sample_files sample_conf (''app'' @ ''.INI'')
             = loadINI sample_files sample_conf ''port = 9090''"
    using LoadFile_extension_case_insensitive
      [where W = sample_files and c = sample_conf and b = "''app''" and b' = "''app''"
        and data = "''port = 9090''" and p = "[]" and q = "[]"] sample_files_read(7,8)
    by blast
  from 1 2 3 show ?thesis
    unfolding sample_loadJSON sample_loadYAML sample_loadINI by blast
qed

text \<open>
  Claim C5, as the code has it. Take a file name whose extension, put in lower case,
  is none of \<open>.json\<close>, \<open>.yaml\<close>, \<open>.yml\<close>, \<open>.ini\<close>. When the file can be read,
  \<open>LoadFile\<close> returns the error for an unsupported extension; when it cannot, the
  file is read before the extension is looked at and \<open>LoadFile\<close> returns the read
  error. In both cases the registry is returned as it was.
\<close>

theorem LoadFile_unsupported_extension:
  assumes "ToLower W (Ext filename) \<notin> {''.json'', ''.yaml'', ''.yml'', ''.ini''}"
  shows "(ReadFile W filename = Some data \<longrightarrow>
            LoadFile W c filename = Ret (c, Some UnsupportedFileExtension))
    \<and> (ReadFile W filename = None \<longrightarrow>
            LoadFile W c filename = Ret (c, Some (ReadFileError filename)))"
  using assms by (simp add: LoadFile_def)

theorem LoadFile_unsupported_extension_witness:
  "ToLower sample_files (Ext ''notes.txt'') \<notin> {''.json'', ''.yaml'', ''.yml'', ''.ini''}
   \<and> ReadFile sample_files ''notes.txt'' = Some ''port = 9090''
   \<and> LoadFile sample_files sample_conf ''notes.txt'' = Ret (sample_conf, Some UnsupportedFileExtension)
   \<and> ToLower sample (Ext ''notes.txt'') \<notin> {''.json'', ''.yaml'', ''.yml'', ''.ini''}
   \<and> ReadFile sample ''notes.txt'' = None
   \<and> LoadFile sample sample_conf ''notes.txt'' = Ret (sample_conf, Some (ReadFileError ''notes.txt''))"
proof -
  have ext: "Ext ''notes.txt'' = ''.txt''" by (simp add: Ext_def)
  have a: "ToLower sample_files (Ext ''notes.txt'') \<notin> {''.json'', ''.yaml'', ''.yml'', ''.ini''}"
    and b: "ToLower sample (Ext ''notes.txt'') \<notin> {''.json'', ''.yaml'', ''.yml'', ''.ini''}"
    by (simp_all add: ext ToLower_txt)
  have r: "ReadFile sample_files ''notes.txt'' = Some ''port = 9090''"
    and n: "ReadFile sample ''notes.txt'' = None"
    by (simp_all add: sample_files_def sample_def)
  from LoadFile_unsupported_extension [OF a, of "''port = 9090''" sample_conf]
    LoadFile_unsupported_extension [OF b, of "''port = 9090''" sample_conf] a b r n
  show ?thesis by blast
qed

text \<open>
  Claim C5 as stated fails twice. The extension \<open>.JSON\<close> is not one of the four, yet
  \<open>config.JSON\<close> is loaded as JSON, with no error, and changes the slot \<open>port\<close>.
  And \<open>notes.txt\<close>, when it cannot be read, gives the read error, not the error
  for an unsupported extension.
\<close>

theorem LoadFile_unsupported_extension_counterexample:
  \<open>Ext ''config.JSON'' = ''.JSON''
   \<and> ''.JSON'' \<notin> {''.json'', ''.yaml'', ''.yml'', ''.ini''}
   \<and> LoadFile sample_files sample_conf ''config.JSON''
        = Ret (sample_conf\<lparr>flags := (flags sample_conf)(''port'' \<mapsto> PInt 9090)\<rparr>, None)
   \<and> flags sample_conf ''port'' = Some (PInt 8080)
   \<and> Ext ''notes.txt'' = ''.txt''
   \<and> LoadFile sample sample_conf ''notes.txt'' = Ret (sample_conf, Some (ReadFileError ''notes.txt''))\<close>
proof -
  have ext: "Ext ''config.JSON'' = ''.JSON''" "Ext ''notes.txt'' = ''.txt''"
    by (simp_all add: Ext_def)
  have r: \<open>ReadFile sample_files ''config.JSON'' = Some ''{"port": 9090}''\<close>
    and n: "ReadFile sample ''notes.txt'' = None"
    by (simp_all add: sample_files_def sample_def)
  have 1: \<open>LoadFile sample_files sample_conf ''config.JSON''
        = Ret (sample_conf\<lparr>flags := (flags sample_conf)(''port'' \<mapsto> PInt 9090)\<rparr>, None)\<close>
    by (simp add: LoadFile_def r ext ToLower_upper_exts sample_loadJSON)
  have 2: "LoadFile sample sample_conf ''notes.txt'' = Ret (sample_conf, Some (ReadFileError ''notes.txt''))"
    by (simp add: LoadFile_def n)
  have 3: "flags sample_conf ''port'' = Some (PInt 8080)"
    by (simp add: sample_conf_def)
  from ext 1 2 3 show ?thesis by simp
qed

section \<open>Coercion to a duration\<close>

text \<open>
  Claim C8, as the code has it. A value for a duration slot is turned into text by
  \<open>toString\<close> and the text is parsed by \<open>time.ParseDuration\<close>; the slot takes the
  value exactly when both steps succeed, and a failure leaves it unchanged. So, when
  the library parses \<open>5m\<close> as 5 minutes (300000000000 nanoseconds), the string
  \<open>5m\<close> sets the slot to that; a number that prints as \<open>5\<close>, which the library
  rejects, fails with an error and leaves the slot unchanged; and a number that prints
  as \<open>0\<close>, which the library accepts as zero, sets the slot to zero.
\<close>

theorem duration_slot_coercion:
  "(ParseDuration W ''5m'' = Some 300000000000 \<longrightarrow>
      setValue W (PDuration d) (VString ''5m'') = Ret (PDuration 300000000000, None))
   \<and> (FormatFloat W x = ''5'' \<and> ParseDuration W ''5'' = None \<longrightarrow>
      setValue W (PDuration d) (VFloat x) = Ret (PDuration d, Some (InvalidDuration ''5'')))
   \<and> (FormatFloat W z = ''0'' \<and> ParseDuration W ''0'' = Some 0 \<longrightarrow>
      setValue W (PDuration d) (VFloat z) = Ret (PDuration 0, None))
   \<and> (setValue W (PDuration d) v = Ret (p, None) \<longrightarrow>
      (\<exists>t d'. toString W v = Inr t \<and> ParseDuration W t = Some d' \<and> p = PDuration d'))
   \<and> (toString W v = Inr t \<and> ParseDuration W t = Some d' \<longrightarrow>
      setValue W (PDuration d) v = Ret (PDuration d', None))
   \<and> (setValue W (PDuration d) v = Ret (p, Some e) \<longrightarrow> p = PDuration d)"
  by (auto simp: setValue_def toString_def split: sum.splits option.splits)

lemma sample_durations:
  "sample_ParseDuration ''5m'' = Some 300000000000"
  "sample_ParseDuration ''5'' = None"
  "sample_ParseDuration ''0'' = Some 0"
  by (simp_all add: sample_ParseDuration_def is_digit_def unit_ns_def)

lemma sample_formats: "sample_FormatFloat 5 = ''5''" "sample_FormatFloat 0 = ''0''"
  by code_simp+

theorem duration_slot_coercion_witness:
  "ParseDuration sample ''5m'' = Some 300000000000
   \<and> setValue sample (PDuration 1000000000) (VString ''5m'') = Ret (PDuration 300000000000, None)
   \<and> FormatFloat sample 5 = ''5'' \<and> ParseDuration sample ''5'' = None
   \<and> setValue sample (PDuration 1000000000) (VFloat 5)
        = Ret (PDuration 1000000000, Some (InvalidDuration ''5''))
   \<and> FormatFloat sample 0 = ''0'' \<and> ParseDuration sample ''0'' = Some 0
   \<and> setValue sample (PDuration 1000000000) (VFloat 0) = Ret (PDuration 0, None)"
proof -
  have lib: "ParseDuration sample ''5m'' = Some 300000000000" "FormatFloat sample 5 = ''5''"
    "ParseDuration sample ''5'' = None" "FormatFloat sample 0 = ''0''"
    "ParseDuration sample ''0'' = Some 0"
    by (simp_all add: sample_def sample_durations sample_formats)
  from lib duration_slot_coercion
    [where W = sample and d = 1000000000 and x = 5 and z = 0 and v = "VString ''5m''"
      and t = "''5m''" and d' = 300000000000 and p = "PDuration 300000000000"
      and e = "InvalidDuration ''5''"]
  show ?thesis by blast
qed

text \<open>
  Claim C8 as stated fails for the number 0: it prints as \<open>0\<close>, the one text
  without a unit that \<open>time.ParseDuration\<close> accepts, and a slot holding one second
  is set to zero with no error.
\<close>

theorem duration_rejects_numbers_counterexample:
  "setValue sample (PDuration 1000000000) (VFloat 0) = Ret (PDuration 0, None)
   \<and> FormatFloat sample 0 = ''0'' \<and> ParseDuration sample ''0'' = Some 0"
  by (simp add: setValue_def toString_def sample_def sample_durations sample_formats)

end
